theory Spec2Isabelle
  imports Complex_Main "HOL-Library.Word" "HOL-Library.Product_Lexorder" "HOL-Library.Multiset"
begin

section \<open>JavaScript values\<close>

text \<open>
  A JavaScript string is a sequence of UTF-16 code units. The literals of the program
  are ASCII apart from four accented letters, which are written as their code units
  (\<open>0xE9\<close> e-acute, \<open>0xEA\<close> e-circumflex, \<open>0xF3\<close> o-acute).
\<close>

type_synonym jsstring = "16 word list"

definition ascii :: "string \<Rightarrow> jsstring" where
  "ascii s = map of_char s"

text \<open>
  The values a request body parsed from JSON can hold, with \<open>JUndefined\<close> for a
  property that is absent. An object is its list of properties in insertion order;
  a property is read with \<open>field\<close>, which gives \<open>undefined\<close> for a missing key.
\<close>

datatype jsval =
    JUndefined
  | JNull
  | JBool bool
  | JNum rat
  | JStr jsstring
  | JArr "jsval list"
  | JObj "(jsstring \<times> jsval) list"

type_synonym jsobject = "(jsstring \<times> jsval) list"

definition field :: "jsobject \<Rightarrow> jsstring \<Rightarrow> jsval" where
  "field d k = (case map_of d k of None \<Rightarrow> JUndefined | Some v \<Rightarrow> v)"

definition keys :: "jsobject \<Rightarrow> jsstring list" where
  "keys d = map fst d"

text \<open>ToBoolean: what \<open>!v\<close> and \<open>v ? a : b\<close> test.\<close>

fun truthy :: "jsval \<Rightarrow> bool" where
  "truthy JUndefined = False"
| "truthy JNull = False"
| "truthy (JBool b) = b"
| "truthy (JNum n) = (n \<noteq> 0)"
| "truthy (JStr s) = (s \<noteq> [])"
| "truthy (JArr xs) = True"
| "truthy (JObj ps) = True"

text \<open>
  What a \<open>throw\<close> carries. \<open>TypeError\<close> is raised by the engine, \<open>Error\<close> by the
  program's own \<open>throw new Error(...)\<close>, \<open>StorageError\<close> by the database driver;
  each has its message.
\<close>

datatype js_error =
    TypeError jsstring
  | Error jsstring
  | StorageError jsstring

fun message :: "js_error \<Rightarrow> jsstring" where
  "message (TypeError m) = m"
| "message (Error m) = m"
| "message (StorageError m) = m"

text \<open>
  \<open>String.prototype.trim\<close> removes the WhiteSpace and LineTerminator code points of
  ECMAScript from both ends.
\<close>

definition isWhiteSpace :: "16 word \<Rightarrow> bool" where
  "isWhiteSpace c \<longleftrightarrow>
     c \<in> {0x0009, 0x000A, 0x000B, 0x000C, 0x000D, 0x0020, 0x00A0, 0x1680,
          0x2000, 0x2001, 0x2002, 0x2003, 0x2004, 0x2005, 0x2006, 0x2007,
          0x2008, 0x2009, 0x200A, 0x2028, 0x2029, 0x202F, 0x205F, 0x3000, 0xFEFF}"

definition trim :: "jsstring \<Rightarrow> jsstring" where
  "trim s = rev (dropWhile isWhiteSpace (rev (dropWhile isWhiteSpace s)))"

text \<open>
  The method call \<open>v.trim()\<close> at a value of any type. Only a string has the method:
  on \<open>undefined\<close> and \<open>null\<close> the property read throws, on every other value the
  property is not a function (a parsed body holds no function) and the call throws.
  The first argument is the expression as the engine prints it in the message.
\<close>

fun call_trim :: "jsstring \<Rightarrow> jsval \<Rightarrow> js_error + jsstring" where
  "call_trim e (JStr s) = Inr (trim s)"
| "call_trim e JUndefined =
     Inl (TypeError (ascii ''Cannot read properties of undefined (reading 'trim')''))"
| "call_trim e JNull =
     Inl (TypeError (ascii ''Cannot read properties of null (reading 'trim')''))"
| "call_trim e v = Inl (TypeError (e @ ascii ''.trim is not a function''))"

text \<open>\<open>Array.prototype.join\<close> on a list of strings.\<close>

fun join :: "jsstring \<Rightarrow> jsstring list \<Rightarrow> jsstring" where
  "join sep [] = []"
| "join sep [x] = x"
| "join sep (x # y # ys) = x @ sep @ join sep (y # ys)"

section \<open>AtendimentoModel: validation and sanitisation\<close>

definition k_nome :: jsstring where "k_nome = ascii ''nome''"
definition k_profissional :: jsstring where "k_profissional = ascii ''profissional''"
definition k_data :: jsstring where "k_data = ascii ''data''"
definition k_tipo :: jsstring where "k_tipo = ascii ''tipo''"
definition k_observacoes :: jsstring where "k_observacoes = ascii ''observacoes''"

definition msg_nome :: jsstring where
  "msg_nome = ascii ''Nome '' @ [0xE9] @ ascii '' obrigat'' @ [0xF3] @ ascii ''rio''"

definition msg_profissional :: jsstring where
  "msg_profissional =
     ascii ''Profissional '' @ [0xE9] @ ascii '' obrigat'' @ [0xF3] @ ascii ''rio''"

definition msg_data :: jsstring where
  "msg_data = ascii ''Data '' @ [0xE9] @ ascii '' obrigat'' @ [0xF3] @ ascii ''ria''"

definition msg_tipo :: jsstring where
  "msg_tipo =
     ascii ''Tipo deve ser: Psicol'' @ [0xF3] @ ascii ''gico, Pedag'' @ [0xF3]
       @ ascii ''gico ou Assist'' @ [0xEA] @ ascii ''ncia Social''"

definition tiposValidos :: "jsstring list" where
  "tiposValidos =
     [ascii ''Psicol'' @ [0xF3] @ ascii ''gico'',
      ascii ''Pedag'' @ [0xF3] @ ascii ''gico'',
      ascii ''Assist'' @ [0xEA] @ ascii ''ncia Social'']"

text \<open>\<open>tiposValidos.includes(tipo)\<close>: only a string equals an element of the list.\<close>

definition includes_tipo :: "jsval \<Rightarrow> bool" where
  "includes_tipo v = (case v of JStr s \<Rightarrow> s \<in> set tiposValidos | _ \<Rightarrow> False)"

record validation =
  isValid :: bool
  errors :: "jsstring list"

text \<open>
  The test \<open>!v || v.trim().length === 0\<close> of the first two rules: the method call is
  reached only when \<open>v\<close> is truthy, and it throws when \<open>v\<close> is not a string.
\<close>

definition blank :: "jsstring \<Rightarrow> jsval \<Rightarrow> js_error + bool" where
  "blank e v =
     (if \<not> truthy v then Inr True
      else case call_trim e v of Inl err \<Rightarrow> Inl err | Inr t \<Rightarrow> Inr (length t = 0))"

definition validateAtendimentoData :: "jsobject \<Rightarrow> js_error + validation" where
  "validateAtendimentoData d =
     (let nome = field d k_nome;
          profissional = field d k_profissional;
          dataAtendimento = field d k_data;
          tipo = field d k_tipo;
          errors0 = []
      in (case blank (ascii ''nome'') nome of
            Inl err \<Rightarrow> Inl err
          | Inr b1 \<Rightarrow>
              (let errors1 = (if b1 then errors0 @ [msg_nome] else errors0)
               in (case blank (ascii ''profissional'') profissional of
                     Inl err \<Rightarrow> Inl err
                   | Inr b2 \<Rightarrow>
                       (let errors2 = (if b2 then errors1 @ [msg_profissional] else errors1);
                            errors3 = (if \<not> truthy dataAtendimento then errors2 @ [msg_data]
                                       else errors2);
                            errors4 = (if \<not> truthy tipo \<or> \<not> includes_tipo tipo
                                       then errors3 @ [msg_tipo] else errors3)
                        in Inr \<lparr>isValid = (length errors4 = 0), errors = errors4\<rparr>)))))"

text \<open>The conditional \<open>v ? v.trim() : ''\<close> of the three trimmed fields.\<close>

definition trim_or_empty :: "jsstring \<Rightarrow> jsval \<Rightarrow> js_error + jsstring" where
  "trim_or_empty e v = (if truthy v then call_trim e v else Inr [])"

definition sanitizeAtendimentoData :: "jsobject \<Rightarrow> js_error + jsobject" where
  "sanitizeAtendimentoData d =
     (case trim_or_empty (ascii ''data.nome'') (field d k_nome) of
        Inl err \<Rightarrow> Inl err
      | Inr n \<Rightarrow>
          (case trim_or_empty (ascii ''data.profissional'') (field d k_profissional) of
             Inl err \<Rightarrow> Inl err
           | Inr p \<Rightarrow>
               (case trim_or_empty (ascii ''data.observacoes'') (field d k_observacoes) of
                  Inl err \<Rightarrow> Inl err
                | Inr ob \<Rightarrow>
                    Inr [(k_nome, JStr n),
                         (k_profissional, JStr p),
                         (k_data, field d k_data),
                         (k_tipo, field d k_tipo),
                         (k_observacoes, JStr ob)])))"

section \<open>The table and the queries\<close>

text \<open>
  The schema of \<open>initializeTables\<close>: \<open>id SERIAL PRIMARY KEY\<close>, three \<open>TEXT NOT NULL\<close>
  columns, \<open>data DATE NOT NULL\<close>, \<open>tipo\<close> with its \<open>CHECK\<close>, and \<open>observacoes TEXT\<close>.
  A date is (year, month, day), ordered lexicographically. The record is polymorphic in
  the date column: a stored row holds a date, a row formatted for a response holds the
  display string.
\<close>

type_synonym date = "nat \<times> nat \<times> nat"

record 'd atendimento =
  id' :: int
  nome :: jsstring
  profissional :: jsstring
  data :: 'd
  tipo :: jsstring
  observacoes :: jsstring

datatype query =
    SelectAll
  | SelectById int
  | Insert jsval jsval jsval jsval jsval
  | Update jsval jsval jsval jsval jsval int
  | Delete int

datatype model_call =
    CallFindAll
  | CallFindById int
  | CallCreate jsobject
  | CallUpdate int jsobject
  | CallDelete int

text \<open>
  The state behind \<open>this.db\<close>: the rows of the table, the next value of the \<open>SERIAL\<close>
  sequence, and the input function of the \<open>DATE\<close> column, which belongs to the database
  and is left open (it gives the date, or the message of the error the database raises).
  Two logs record what happened: every query passed to \<open>Database.query\<close>, and every
  call of a persistence method of the model.
\<close>

record store =
  table :: "date atendimento list"
  seq :: int
  date_in :: "jsval \<Rightarrow> jsstring + date"
  queries :: "query list"
  calls :: "model_call list"

definition int4 :: "int \<Rightarrow> bool" where
  "int4 i \<longleftrightarrow> - (2 ^ 31) \<le> i \<and> i < 2 ^ 31"

text \<open>
  A value bound to a \<open>TEXT NOT NULL\<close> column. The program binds only strings there
  (lemma \<open>sanitized_valid_strings\<close>); any other value is modelled as refused.
\<close>

definition text_in :: "jsval \<Rightarrow> jsstring + jsstring" where
  "text_in v = (case v of JStr s \<Rightarrow> Inr s
                | _ \<Rightarrow> Inl (ascii ''invalid input for a text column''))"

definition bind_columns ::
  "(jsval \<Rightarrow> jsstring + date) \<Rightarrow> int \<Rightarrow> jsval \<Rightarrow> jsval \<Rightarrow> jsval \<Rightarrow> jsval \<Rightarrow> jsval
     \<Rightarrow> js_error + date atendimento" where
  "bind_columns din i n p d t ob =
     (case text_in n of Inl m \<Rightarrow> Inl (StorageError m) | Inr n' \<Rightarrow>
     (case text_in p of Inl m \<Rightarrow> Inl (StorageError m) | Inr p' \<Rightarrow>
     (case din d of Inl m \<Rightarrow> Inl (StorageError m) | Inr d' \<Rightarrow>
     (case text_in t of Inl m \<Rightarrow> Inl (StorageError m) | Inr t' \<Rightarrow>
     (case text_in ob of Inl m \<Rightarrow> Inl (StorageError m) | Inr ob' \<Rightarrow>
        (if t' \<notin> set tiposValidos
         then Inl (StorageError (ascii ''violates check constraint''))
         else Inr \<lparr>id' = i, nome = n', profissional = p', data = d', tipo = t',
                   observacoes = ob'\<rparr>))))))"

text \<open>
  What each statement of the model does to the table. \<open>SelectAll\<close> is
  \<open>ORDER BY data DESC, id DESC\<close>; an \<open>id\<close> parameter outside the 32-bit range of the
  column is an error of the database; \<open>Insert\<close> takes the next value of the sequence
  and is refused by the primary key when that id is taken.
\<close>

definition order_by_data_id_desc :: "date atendimento list \<Rightarrow> date atendimento list" where
  "order_by_data_id_desc rs = rev (sort_key (\<lambda>r. (data r, id' r)) rs)"

fun exec :: "query \<Rightarrow> store \<Rightarrow> (js_error + date atendimento list) \<times> store" where
  "exec SelectAll s = (Inr (order_by_data_id_desc (table s)), s)"
| "exec (SelectById i) s =
     (if \<not> int4 i then (Inl (StorageError (ascii ''out of range for type integer'')), s)
      else (Inr (filter (\<lambda>r. id' r = i) (table s)), s))"
| "exec (Insert n p d t ob) s =
     (case bind_columns (date_in s) (seq s) n p d t ob of
        Inl e \<Rightarrow> (Inl e, s)
      | Inr r \<Rightarrow>
          (if \<not> int4 (seq s)
           then (Inl (StorageError (ascii ''reached maximum value of sequence'')), s)
           else if seq s \<in> id' ` set (table s)
           then (Inl (StorageError (ascii ''duplicate key value violates unique constraint'')),
                 s\<lparr>seq := seq s + 1\<rparr>)
           else (Inr [r], s\<lparr>table := table s @ [r], seq := seq s + 1\<rparr>)))"
| "exec (Update n p d t ob i) s =
     (case bind_columns (date_in s) i n p d t ob of
        Inl e \<Rightarrow> (Inl e, s)
      | Inr r \<Rightarrow>
          (if \<not> int4 i then (Inl (StorageError (ascii ''out of range for type integer'')), s)
           else (Inr (map (\<lambda>x. r) (filter (\<lambda>x. id' x = i) (table s))),
                 s\<lparr>table := map (\<lambda>x. if id' x = i then r else x) (table s)\<rparr>)))"
| "exec (Delete i) s =
     (if \<not> int4 i then (Inl (StorageError (ascii ''out of range for type integer'')), s)
      else (Inr (filter (\<lambda>r. id' r = i) (table s)),
            s\<lparr>table := filter (\<lambda>r. id' r \<noteq> i) (table s)\<rparr>))"

text \<open>\<open>Database.query\<close>: runs the statement; an error of the database is rethrown.\<close>

definition db_query :: "query \<Rightarrow> store \<Rightarrow> (js_error + date atendimento list) \<times> store" where
  "db_query q s = exec q (s\<lparr>queries := queries s @ [q]\<rparr>)"

section \<open>AtendimentoModel: the persistence methods\<close>

text \<open>\<open>result.rows[0] || null\<close>, and \<open>result.rows[0]\<close> whose \<open>undefined\<close> is \<open>None\<close> too.\<close>

definition rows0 :: "'a list \<Rightarrow> 'a option" where
  "rows0 rs = (case rs of [] \<Rightarrow> None | r # _ \<Rightarrow> Some r)"

definition called :: "model_call \<Rightarrow> store \<Rightarrow> store" where
  "called c s = s\<lparr>calls := calls s @ [c]\<rparr>"

definition findAll :: "store \<Rightarrow> (js_error + date atendimento list) \<times> store" where
  "findAll s = db_query SelectAll (called CallFindAll s)"

definition findById :: "int \<Rightarrow> store \<Rightarrow> (js_error + date atendimento option) \<times> store" where
  "findById i s =
     (case db_query (SelectById i) (called (CallFindById i) s) of
        (Inl e, s') \<Rightarrow> (Inl e, s')
      | (Inr rs, s') \<Rightarrow> (Inr (rows0 rs), s'))"

definition validation_failed :: "jsstring list \<Rightarrow> js_error" where
  "validation_failed es = Error (ascii ''Validation failed: '' @ join (ascii '', '') es)"

definition create :: "jsobject \<Rightarrow> store \<Rightarrow> (js_error + date atendimento option) \<times> store" where
  "create atendimentoData s0 =
     (let s = called (CallCreate atendimentoData) s0
      in (case sanitizeAtendimentoData atendimentoData of
            Inl e \<Rightarrow> (Inl e, s)
          | Inr sanitizedData \<Rightarrow>
              (case validateAtendimentoData sanitizedData of
                 Inl e \<Rightarrow> (Inl e, s)
               | Inr v \<Rightarrow>
                   (if \<not> isValid v then (Inl (validation_failed (errors v)), s)
                    else (case db_query (Insert (field sanitizedData k_nome)
                                                (field sanitizedData k_profissional)
                                                (field sanitizedData k_data)
                                                (field sanitizedData k_tipo)
                                                (field sanitizedData k_observacoes)) s of
                            (Inl e, s') \<Rightarrow> (Inl e, s')
                          | (Inr rs, s') \<Rightarrow> (Inr (rows0 rs), s'))))))"

definition update ::
  "int \<Rightarrow> jsobject \<Rightarrow> store \<Rightarrow> (js_error + date atendimento option) \<times> store" where
  "update i atendimentoData s0 =
     (let s = called (CallUpdate i atendimentoData) s0
      in (case sanitizeAtendimentoData atendimentoData of
            Inl e \<Rightarrow> (Inl e, s)
          | Inr sanitizedData \<Rightarrow>
              (case validateAtendimentoData sanitizedData of
                 Inl e \<Rightarrow> (Inl e, s)
               | Inr v \<Rightarrow>
                   (if \<not> isValid v then (Inl (validation_failed (errors v)), s)
                    else (case db_query (Update (field sanitizedData k_nome)
                                                (field sanitizedData k_profissional)
                                                (field sanitizedData k_data)
                                                (field sanitizedData k_tipo)
                                                (field sanitizedData k_observacoes) i) s of
                            (Inl e, s') \<Rightarrow> (Inl e, s')
                          | (Inr rs, s') \<Rightarrow> (Inr (rows0 rs), s'))))))"

definition delete :: "int \<Rightarrow> store \<Rightarrow> (js_error + date atendimento option) \<times> store" where
  "delete i s =
     (case db_query (Delete i) (called (CallDelete i) s) of
        (Inl e, s') \<Rightarrow> (Inl e, s')
      | (Inr rs, s') \<Rightarrow> (Inr (rows0 rs), s'))"

section \<open>AtendimentoController\<close>

text \<open>
  \<open>parseInt\<close> with no radix, on the mathematical integers: leading white space is
  skipped, then an optional sign, then \<open>0x\<close> or \<open>0X\<close> selects base 16, and the longest
  run of digits is read; whatever follows is ignored. \<open>None\<close> is \<open>NaN\<close>. (A double holds
  every integer of the 32-bit range of the \<open>id\<close> column exactly, and the database
  refuses what lies outside that range.)
\<close>

definition digitValue :: "16 word \<Rightarrow> nat option" where
  "digitValue c =
     (if 0x30 \<le> c \<and> c \<le> 0x39 then Some (unat c - 0x30)
      else if 0x61 \<le> c \<and> c \<le> 0x7A then Some (unat c - 0x61 + 10)
      else if 0x41 \<le> c \<and> c \<le> 0x5A then Some (unat c - 0x41 + 10)
      else None)"

definition isDigit :: "nat \<Rightarrow> 16 word \<Rightarrow> bool" where
  "isDigit R c = (case digitValue c of None \<Rightarrow> False | Some v \<Rightarrow> v < R)"

definition mathInt :: "nat \<Rightarrow> jsstring \<Rightarrow> nat" where
  "mathInt R ds = foldl (\<lambda>a c. a * R + (case digitValue c of None \<Rightarrow> 0 | Some v \<Rightarrow> v)) 0 ds"

definition parseInt :: "jsstring \<Rightarrow> int option" where
  "parseInt inputString =
     (let S = dropWhile isWhiteSpace inputString;
          sign = (case S of c # _ \<Rightarrow> if c = 0x2D then - 1 else 1 | [] \<Rightarrow> (1::int));
          S1 = (case S of c # r \<Rightarrow> if c = 0x2D \<or> c = 0x2B then r else S | [] \<Rightarrow> S);
          hex = (case S1 of a # b # _ \<Rightarrow> a = 0x30 \<and> (b = 0x78 \<or> b = 0x58) | _ \<Rightarrow> False);
          R = (if hex then 16 else 10);
          S2 = (if hex then drop 2 S1 else S1);
          Z = takeWhile (isDigit R) S2
      in if Z = [] then None else Some (sign * int (mathInt R Z)))"

text \<open>
  The guard \<open>!id || isNaN(parseInt(id))\<close> and the argument \<open>parseInt(id)\<close> that follows
  it: \<open>None\<close> when the guard rejects, the parsed integer otherwise. The path parameter
  is a string, or \<open>undefined\<close> (\<open>None\<close>).
\<close>

definition checked_id :: "jsstring option \<Rightarrow> int option" where
  "checked_id p = (case p of None \<Rightarrow> None | Some s \<Rightarrow> if s = [] then None else parseInt s)"

text \<open>
  The data of a response: \<open>null\<close>, one formatted record, a list of them, or the object
  \<open>{id}\<close> of a deletion.
\<close>

datatype payload =
    PNull
  | POne "jsstring atendimento"
  | PMany "jsstring atendimento list"
  | PId int

text \<open>
  What \<open>res.status(n).json(formatResponse(...))\<close> sends: the status and the envelope.
  The envelope's \<open>timestamp\<close>, the clock at the time of the response, is left out.
\<close>

record response =
  status :: nat
  success :: bool
  r_data :: payload
  r_message :: jsstring
  r_errors :: "jsstring list"

definition formatResponse ::
  "nat \<Rightarrow> bool \<Rightarrow> payload \<Rightarrow> jsstring \<Rightarrow> jsstring list \<Rightarrow> response" where
  "formatResponse st ok d m es =
     \<lparr>status = st, success = ok, r_data = d, r_message = m, r_errors = es\<rparr>"

text \<open>
  \<open>formatAtendimentoResponse\<close>: the row with its date replaced by the display string.
  The display function (\<open>toLocaleDateString('pt-BR')\<close> of the date) belongs to the
  engine and is the parameter \<open>display\<close>.
\<close>

definition formatAtendimentoResponse ::
  "(date \<Rightarrow> jsstring) \<Rightarrow> date atendimento \<Rightarrow> jsstring atendimento" where
  "formatAtendimentoResponse display a =
     \<lparr>id' = id' a, nome = nome a, profissional = profissional a, data = display (data a),
      tipo = tipo a, observacoes = observacoes a\<rparr>"

definition format_or_null :: "(date \<Rightarrow> jsstring) \<Rightarrow> date atendimento option \<Rightarrow> payload" where
  "format_or_null display a =
     (case a of None \<Rightarrow> PNull | Some r \<Rightarrow> POne (formatAtendimentoResponse display r))"

text \<open>\<open>String.prototype.includes\<close>.\<close>

fun starts_with :: "jsstring \<Rightarrow> jsstring \<Rightarrow> bool" where
  "starts_with s [] = True"
| "starts_with [] (c # cs) = False"
| "starts_with (x # xs) (c # cs) = (x = c \<and> starts_with xs cs)"

fun includes_str :: "jsstring \<Rightarrow> jsstring \<Rightarrow> bool" where
  "includes_str [] n = (n = [])"
| "includes_str (x # xs) n = (starts_with (x # xs) n \<or> includes_str xs n)"

definition invalid_id_response :: response where
  "invalid_id_response =
     formatResponse 400 False PNull (ascii ''Invalid ID parameter'')
       [ascii ''ID must be a valid number'']"

definition not_found_response :: response where
  "not_found_response = formatResponse 404 False PNull (ascii ''Atendimento not found'') []"


definition getAtendimentoById ::
  "(date \<Rightarrow> jsstring) \<Rightarrow> jsstring option \<Rightarrow> store \<Rightarrow> response \<times> store" where
  "getAtendimentoById display p s =
     (case checked_id p of
        None \<Rightarrow> (invalid_id_response, s)
      | Some i \<Rightarrow>
          (case findById i s of
             (Inr None, s') \<Rightarrow> (not_found_response, s')
           | (Inr (Some atendimento), s') \<Rightarrow>
               (formatResponse 200 True (POne (formatAtendimentoResponse display atendimento))
                  (ascii ''Atendimento retrieved successfully'') [], s')
           | (Inl error, s') \<Rightarrow>
               (formatResponse 500 False PNull (ascii ''Error retrieving atendimento'')
                  [message error], s')))"

definition createAtendimento ::
  "(date \<Rightarrow> jsstring) \<Rightarrow> jsobject \<Rightarrow> store \<Rightarrow> response \<times> store" where
  "createAtendimento display body s =
     (case create body s of
        (Inr newAtendimento, s') \<Rightarrow>
          (formatResponse 201 True (format_or_null display newAtendimento)
             (ascii ''Atendimento created successfully'') [], s')
      | (Inl error, s') \<Rightarrow>
          (if includes_str (message error) (ascii ''Validation failed'')
           then (formatResponse 400 False PNull (ascii ''Validation error'') [message error], s')
           else (formatResponse 500 False PNull (ascii ''Error creating atendimento'')
                   [message error], s')))"


definition deleteAtendimento :: "jsstring option \<Rightarrow> store \<Rightarrow> response \<times> store" where
  "deleteAtendimento p s =
     (case checked_id p of
        None \<Rightarrow> (invalid_id_response, s)
      | Some i \<Rightarrow>
          (case delete i s of
             (Inr None, s') \<Rightarrow> (not_found_response, s')
           | (Inr (Some deletedAtendimento), s') \<Rightarrow>
               (formatResponse 200 True (PId (id' deletedAtendimento))
                  (ascii ''Atendimento deleted successfully'') [], s')
           | (Inl error, s') \<Rightarrow>
               (formatResponse 500 False PNull (ascii ''Error deleting atendimento'')
                  [message error], s')))"

section \<open>The rules of the specification\<close>

text \<open>
  The rules as the specification words them, to be compared with what the code computes.
  A field is "missing" when falsy (\<open>undefined\<close>, \<open>null\<close>, \<open>false\<close>, \<open>0\<close>, the empty
  string); \<open>nome\<close> and \<open>profissional\<close> are also violated when blank after trim.
  \<open>violated_rules\<close> lists the message of each violated rule, in the order of the rules.
  \<open>date_desc_then_id_desc a b\<close> says that \<open>a\<close> may stand before \<open>b\<close> in a list ordered
  by date descending, then id descending.
\<close>

definition string_or_falsy :: "jsval \<Rightarrow> bool" where
  "string_or_falsy v = (case v of JStr t \<Rightarrow> True | _ \<Rightarrow> \<not> truthy v)"

definition blank_text :: "jsval \<Rightarrow> bool" where
  "blank_text v = (case v of JStr t \<Rightarrow> trim t = [] | _ \<Rightarrow> \<not> truthy v)"

definition violated_rules :: "jsobject \<Rightarrow> jsstring list" where
  "violated_rules d =
     (if blank_text (field d k_nome) then [msg_nome] else [])
     @ (if blank_text (field d k_profissional) then [msg_profissional] else [])
     @ (if \<not> truthy (field d k_data) then [msg_data] else [])
     @ (if field d k_tipo \<notin> JStr ` set tiposValidos then [msg_tipo] else [])"

definition date_desc_then_id_desc :: "date atendimento \<Rightarrow> date atendimento \<Rightarrow> bool" where
  "date_desc_then_id_desc a b \<longleftrightarrow> data b < data a \<or> (data a = data b \<and> id' b \<le> id' a)"

text \<open>
  Names for the row that a sanitised and validated object becomes, and for the two
  statements built from it.
\<close>

definition stored :: "jsobject \<Rightarrow> int \<Rightarrow> date \<Rightarrow> date atendimento" where
  "stored sd i dt =
     \<lparr>id' = i,
      nome = (case field sd k_nome of JStr n \<Rightarrow> n | _ \<Rightarrow> []),
      profissional = (case field sd k_profissional of JStr n \<Rightarrow> n | _ \<Rightarrow> []),
      data = dt,
      tipo = (case field sd k_tipo of JStr n \<Rightarrow> n | _ \<Rightarrow> []),
      observacoes = (case field sd k_observacoes of JStr n \<Rightarrow> n | _ \<Rightarrow> [])\<rparr>"

definition insert_of :: "jsobject \<Rightarrow> query" where
  "insert_of sd = Insert (field sd k_nome) (field sd k_profissional) (field sd k_data)
                    (field sd k_tipo) (field sd k_observacoes)"

definition update_of :: "jsobject \<Rightarrow> int \<Rightarrow> query" where
  "update_of sd i = Update (field sd k_nome) (field sd k_profissional) (field sd k_data)
                    (field sd k_tipo) (field sd k_observacoes) i"

section \<open>A concrete database and concrete requests\<close>

text \<open>
  For the concrete runs: a date input that accepts the ISO form \<open>YYYY-MM-DD\<close> only,
  the display form \<open>dd/mm/yyyy\<close>, the empty table with its sequence at 1, the request
  body of the end-to-end example of the specification (with the date and the \<open>tipo\<close>
  left open), and the row it becomes.
\<close>

definition iso_date :: "jsval \<Rightarrow> jsstring + date" where
  "iso_date v =
     (case v of
        JStr s \<Rightarrow>
          (let y = take 4 s; m = take 2 (drop 5 s); d = drop 8 s
           in if length s = 10 \<and> s ! 4 = 0x2D \<and> s ! 7 = 0x2D
                 \<and> list_all (isDigit 10) (y @ m @ d)
                 \<and> 1 \<le> mathInt 10 m \<and> mathInt 10 m \<le> 12
                 \<and> 1 \<le> mathInt 10 d \<and> mathInt 10 d \<le> 31
              then Inr (mathInt 10 y, mathInt 10 m, mathInt 10 d)
              else Inl (ascii ''invalid input syntax for type date''))
      | _ \<Rightarrow> Inl (ascii ''invalid input syntax for type date''))"

definition two_digits :: "nat \<Rightarrow> jsstring" where
  "two_digits n = [of_nat (0x30 + n div 10 mod 10), of_nat (0x30 + n mod 10)]"

definition pt_BR :: "date \<Rightarrow> jsstring" where
  "pt_BR dt = (case dt of (y, m, d) \<Rightarrow>
                 two_digits d @ [0x2F] @ two_digits m @ [0x2F] @ two_digits (y div 100) @ two_digits y)"

definition empty_store :: store where
  "empty_store = \<lparr>table = [], seq = 1, date_in = iso_date, queries = [], calls = []\<rparr>"

definition psicologico :: jsstring where
  "psicologico = ascii ''Psicol'' @ [0xF3] @ ascii ''gico''"

definition body :: "jsstring \<Rightarrow> jsstring \<Rightarrow> jsobject" where
  "body dt tp = [(k_nome, JStr (ascii ''Ana'')), (k_profissional, JStr (ascii ''Dr. X'')),
                 (k_data, JStr dt), (k_tipo, JStr tp)]"

definition row_ana :: "int \<Rightarrow> 'd \<Rightarrow> 'd atendimento" where
  "row_ana i dt = \<lparr>id' = i, nome = ascii ''Ana'', profissional = ascii ''Dr. X'', data = dt,
                   tipo = psicologico, observacoes = []\<rparr>"

definition one_row_store :: store where
  "one_row_store = \<lparr>table = [row_ana 1 (2024, 3, 1)], seq = 2, date_in = iso_date,
                      queries = [], calls = []\<rparr>"

definition two_rows_store :: store where
  "two_rows_store =
     snd (create (body (ascii ''2024-06-01'') psicologico)
            (snd (create (body (ascii ''2024-01-01'') psicologico) empty_store)))"

section \<open>Auxiliary lemmas\<close>

lemma keys_distinct:
  "k_nome \<noteq> k_profissional" "k_nome \<noteq> k_data" "k_nome \<noteq> k_tipo" "k_nome \<noteq> k_observacoes"
  "k_profissional \<noteq> k_nome" "k_profissional \<noteq> k_data" "k_profissional \<noteq> k_tipo" "k_profissional \<noteq> k_observacoes"
  "k_data \<noteq> k_nome" "k_data \<noteq> k_profissional" "k_data \<noteq> k_tipo" "k_data \<noteq> k_observacoes"
  "k_tipo \<noteq> k_nome" "k_tipo \<noteq> k_profissional" "k_tipo \<noteq> k_data" "k_tipo \<noteq> k_observacoes"
  "k_observacoes \<noteq> k_nome" "k_observacoes \<noteq> k_profissional" "k_observacoes \<noteq> k_data" "k_observacoes \<noteq> k_tipo"
  by (simp_all add: k_nome_def k_profissional_def k_data_def k_tipo_def k_observacoes_def ascii_def)

lemma trim_no_lead: "dropWhile isWhiteSpace (trim s) = trim s"
proof -
  let ?t = "dropWhile isWhiteSpace s"
  let ?u = "dropWhile isWhiteSpace (rev ?t)"
  show ?thesis
  proof (cases "?u = []")
    case True
    have "trim s = rev ?u" by (simp only: trim_def)
    with True have "trim s = []" by (simp only: rev.simps)
    then show ?thesis by simp
  next
    case False
    obtain ys where ys: "rev ?t = ys @ ?u"
      by (metis takeWhile_dropWhile_id)
    from False have "last ?u = last (rev ?t)" using ys by (metis last_appendR)
    then have "last ?u = hd ?t" by (simp add: last_rev)
    moreover have "?t \<noteq> []"
    proof
      assume "?t = []"
      then have "?u = []" by (simp only: rev.simps dropWhile.simps)
      with False show False by simp
    qed
    ultimately have "\<not> isWhiteSpace (last ?u)" using hd_dropWhile[of isWhiteSpace s] by simp
    then have "\<not> isWhiteSpace (hd (rev ?u))" by (simp add: hd_rev)
    then show ?thesis by (simp add: trim_def dropWhile_eq_self_iff)
  qed
qed

lemma trim_idem: "trim (trim s) = trim s"
proof -
  have "trim (trim s) = rev (dropWhile isWhiteSpace (rev (trim s)))"
    unfolding trim_def[of "trim s"] by (simp only: trim_no_lead)
  also have "rev (trim s) = dropWhile isWhiteSpace (rev (dropWhile isWhiteSpace s))"
    by (simp add: trim_def)
  also have "rev (dropWhile isWhiteSpace (dropWhile isWhiteSpace (rev (dropWhile isWhiteSpace s)))) = trim s"
    by (simp add: trim_def)
  finally show ?thesis .
qed

lemma trim_Nil: "trim [] = []" by (simp add: trim_def)

lemma trim_or_empty_fixed: "trim_or_empty e v = Inr t \<Longrightarrow> trim_or_empty e' (JStr t) = Inr t"
  by (cases v) (auto simp: trim_or_empty_def trim_idem trim_Nil split: if_splits)

lemma field_literal:
  "field [(k_nome, a), (k_profissional, b), (k_data, c), (k_tipo, d), (k_observacoes, e)] k_nome = a"
  "field [(k_nome, a), (k_profissional, b), (k_data, c), (k_tipo, d), (k_observacoes, e)] k_profissional = b"
  "field [(k_nome, a), (k_profissional, b), (k_data, c), (k_tipo, d), (k_observacoes, e)] k_data = c"
  "field [(k_nome, a), (k_profissional, b), (k_data, c), (k_tipo, d), (k_observacoes, e)] k_tipo = d"
  "field [(k_nome, a), (k_profissional, b), (k_data, c), (k_tipo, d), (k_observacoes, e)] k_observacoes = e"
  by (simp_all add: field_def keys_distinct)

lemma sanitize_Inr:
  assumes "sanitizeAtendimentoData d = Inr s"
  obtains n p ob where
    "trim_or_empty (ascii ''data.nome'') (field d k_nome) = Inr n"
    "trim_or_empty (ascii ''data.profissional'') (field d k_profissional) = Inr p"
    "trim_or_empty (ascii ''data.observacoes'') (field d k_observacoes) = Inr ob"
    "s = [(k_nome, JStr n), (k_profissional, JStr p), (k_data, field d k_data),
          (k_tipo, field d k_tipo), (k_observacoes, JStr ob)]"
  using assms by (auto simp: sanitizeAtendimentoData_def split: sum.splits)

lemma sanitize_fixed:
  assumes "sanitizeAtendimentoData d = Inr s"
  shows "sanitizeAtendimentoData s = Inr s"
proof -
  from assms obtain n p ob where
    n: "trim_or_empty (ascii ''data.nome'') (field d k_nome) = Inr n" and
    p: "trim_or_empty (ascii ''data.profissional'') (field d k_profissional) = Inr p" and
    ob: "trim_or_empty (ascii ''data.observacoes'') (field d k_observacoes) = Inr ob" and
    s: "s = [(k_nome, JStr n), (k_profissional, JStr p), (k_data, field d k_data),
          (k_tipo, field d k_tipo), (k_observacoes, JStr ob)]"
    by (rule sanitize_Inr)
  show ?thesis
    unfolding s sanitizeAtendimentoData_def field_literal
    by (simp add: trim_or_empty_fixed[OF n] trim_or_empty_fixed[OF p] trim_or_empty_fixed[OF ob])
qed

lemma trim_or_empty_cases:
  "trim_or_empty e (JStr t) = Inr (trim t)"
  "\<not> truthy v \<Longrightarrow> trim_or_empty e v = Inr []"
  by (simp_all add: trim_or_empty_def trim_Nil)

lemma call_trim_returns: "(\<exists>t. call_trim e v = Inr t) \<longleftrightarrow> (\<exists>s. v = JStr s)"
  by (cases v) auto

lemma blank_returns: "(\<exists>b. blank e v = Inr b) \<longleftrightarrow> string_or_falsy v"
  by (cases v) (auto simp: blank_def string_or_falsy_def)

lemma blank_value: "string_or_falsy v \<Longrightarrow> blank e v = Inr (blank_text v)"
  by (cases v) (auto simp: blank_def string_or_falsy_def blank_text_def trim_Nil)

lemma trim_or_empty_returns: "(\<exists>t. trim_or_empty e v = Inr t) \<longleftrightarrow> string_or_falsy v"
  by (cases v) (auto simp: trim_or_empty_def string_or_falsy_def)

lemma validate_returns:
  "(\<exists>v. validateAtendimentoData d = Inr v) \<longleftrightarrow>
     string_or_falsy (field d k_nome) \<and> string_or_falsy (field d k_profissional)"
  using blank_returns[of "ascii ''nome''" "field d k_nome"]
    blank_returns[of "ascii ''profissional''" "field d k_profissional"]
  by (auto simp: validateAtendimentoData_def Let_def split: sum.splits)

lemma sanitize_returns:
  "(\<exists>s. sanitizeAtendimentoData d = Inr s) \<longleftrightarrow>
     string_or_falsy (field d k_nome) \<and> string_or_falsy (field d k_profissional)
     \<and> string_or_falsy (field d k_observacoes)"
  using trim_or_empty_returns[of "ascii ''data.nome''" "field d k_nome"]
    trim_or_empty_returns[of "ascii ''data.profissional''" "field d k_profissional"]
    trim_or_empty_returns[of "ascii ''data.observacoes''" "field d k_observacoes"]
  by (auto simp: sanitizeAtendimentoData_def split: sum.splits)

lemma includes_tipo_iff: "includes_tipo v \<longleftrightarrow> v \<in> JStr ` set tiposValidos"
  by (cases v) (auto simp: includes_tipo_def)

lemma tipo_truthy: "v \<in> JStr ` set tiposValidos \<Longrightarrow> truthy v"
  by (auto simp: tiposValidos_def ascii_def)

lemma validate_value:
  assumes "string_or_falsy (field d k_nome)" "string_or_falsy (field d k_profissional)"
  shows "validateAtendimentoData d =
           Inr \<lparr>isValid = (violated_rules d = []), errors = violated_rules d\<rparr>"
  using tipo_truthy[of "field d k_tipo"]
  by (auto simp: validateAtendimentoData_def Let_def blank_value[OF assms(1)] blank_value[OF assms(2)]
      violated_rules_def includes_tipo_iff)

lemma msgs_distinct: "distinct [msg_nome, msg_profissional, msg_data, msg_tipo]"
  by (simp add: msg_nome_def msg_profissional_def msg_data_def msg_tipo_def ascii_def)

lemma violated_distinct: "distinct (violated_rules d)"
  using msgs_distinct by (auto simp: violated_rules_def)

lemma sanitized_string_or_falsy:
  assumes "sanitizeAtendimentoData d = Inr s"
  shows "string_or_falsy (field s k_nome)" "string_or_falsy (field s k_profissional)"
    "string_or_falsy (field s k_observacoes)"
  using sanitize_returns[of s] sanitize_fixed[OF assms] by auto

lemma validate_sanitized:
  assumes "sanitizeAtendimentoData d = Inr sd"
  shows "validateAtendimentoData sd =
           Inr \<lparr>isValid = (violated_rules sd = []), errors = violated_rules sd\<rparr>"
  using sanitized_string_or_falsy[OF assms] by (simp add: validate_value)

lemma sanitized_fields:
  assumes "sanitizeAtendimentoData d = Inr sd"
  shows "\<exists>n p ob. field sd k_nome = JStr n \<and> field sd k_profissional = JStr p
           \<and> field sd k_observacoes = JStr ob \<and> field sd k_data = field d k_data
           \<and> field sd k_tipo = field d k_tipo
           \<and> keys sd = [k_nome, k_profissional, k_data, k_tipo, k_observacoes]"
  using assms by (elim sanitize_Inr) (simp add: field_literal keys_def)

lemma sanitized_valid_strings:
  assumes "sanitizeAtendimentoData d = Inr sd" "violated_rules sd = []"
  shows "\<exists>n p t ob. field sd k_nome = JStr n \<and> field sd k_profissional = JStr p
           \<and> field sd k_tipo = JStr t \<and> t \<in> set tiposValidos
           \<and> field sd k_observacoes = JStr ob"
proof -
  from sanitized_fields[OF assms(1)] obtain n p ob where
    f: "field sd k_nome = JStr n" "field sd k_profissional = JStr p"
       "field sd k_observacoes = JStr ob" by blast
  from assms(2) have "field sd k_tipo \<in> JStr ` set tiposValidos"
    by (auto simp: violated_rules_def split: if_splits)
  then obtain t where "field sd k_tipo = JStr t" "t \<in> set tiposValidos" by auto
  with f show ?thesis by blast
qed

lemma bind_columns_valid:
  assumes "sanitizeAtendimentoData d = Inr sd" "violated_rules sd = []"
  shows "bind_columns din i (field sd k_nome) (field sd k_profissional) (field sd k_data)
            (field sd k_tipo) (field sd k_observacoes) =
         (case din (field sd k_data) of
            Inl m \<Rightarrow> Inl (StorageError m)
          | Inr dt \<Rightarrow> Inr \<lparr>id' = i,
                 nome = (case field sd k_nome of JStr n \<Rightarrow> n | _ \<Rightarrow> []),
                 profissional = (case field sd k_profissional of JStr n \<Rightarrow> n | _ \<Rightarrow> []),
                 data = dt,
                 tipo = (case field sd k_tipo of JStr n \<Rightarrow> n | _ \<Rightarrow> []),
                 observacoes = (case field sd k_observacoes of JStr n \<Rightarrow> n | _ \<Rightarrow> [])\<rparr>)"
  using sanitized_valid_strings[OF assms]
  by (auto simp: bind_columns_def text_in_def split: sum.splits)

lemma create_sanitize_throws:
  "sanitizeAtendimentoData d = Inl e \<Longrightarrow> create d s = (Inl e, called (CallCreate d) s)"
  by (simp add: create_def)

lemma create_invalid:
  "sanitizeAtendimentoData d = Inr sd \<Longrightarrow> violated_rules sd \<noteq> [] \<Longrightarrow>
     create d s = (Inl (validation_failed (violated_rules sd)), called (CallCreate d) s)"
  by (simp add: create_def validate_sanitized)

lemma update_sanitize_throws:
  "sanitizeAtendimentoData d = Inl e \<Longrightarrow> update i d s = (Inl e, called (CallUpdate i d) s)"
  by (simp add: update_def)

lemma update_invalid:
  "sanitizeAtendimentoData d = Inr sd \<Longrightarrow> violated_rules sd \<noteq> [] \<Longrightarrow>
     update i d s = (Inl (validation_failed (violated_rules sd)), called (CallUpdate i d) s)"
  by (simp add: update_def validate_sanitized)

lemma create_valid:
  assumes "sanitizeAtendimentoData d = Inr sd" "violated_rules sd = []"
  shows "create d s =
    (case date_in s (field sd k_data) of
       Inl m \<Rightarrow> (Inl (StorageError m),
                 s\<lparr>queries := queries s @ [insert_of sd], calls := calls s @ [CallCreate d]\<rparr>)
     | Inr dt \<Rightarrow>
         if \<not> int4 (seq s)
         then (Inl (StorageError (ascii ''reached maximum value of sequence'')),
               s\<lparr>queries := queries s @ [insert_of sd], calls := calls s @ [CallCreate d]\<rparr>)
         else if seq s \<in> id' ` set (table s)
         then (Inl (StorageError (ascii ''duplicate key value violates unique constraint'')),
               s\<lparr>seq := seq s + 1, queries := queries s @ [insert_of sd],
                 calls := calls s @ [CallCreate d]\<rparr>)
         else (Inr (Some (stored sd (seq s) dt)),
               s\<lparr>table := table s @ [stored sd (seq s) dt], seq := seq s + 1,
                 queries := queries s @ [insert_of sd], calls := calls s @ [CallCreate d]\<rparr>))"
  using assms by (simp add: create_def Let_def validate_sanitized[OF assms(1)] db_query_def called_def
      bind_columns_valid[OF assms] stored_def insert_of_def rows0_def split: sum.splits)

lemma update_valid:
  assumes "sanitizeAtendimentoData d = Inr sd" "violated_rules sd = []"
  shows "update i d s =
    (case date_in s (field sd k_data) of
       Inl m \<Rightarrow> (Inl (StorageError m),
                 s\<lparr>queries := queries s @ [update_of sd i], calls := calls s @ [CallUpdate i d]\<rparr>)
     | Inr dt \<Rightarrow>
         if \<not> int4 i
         then (Inl (StorageError (ascii ''out of range for type integer'')),
               s\<lparr>queries := queries s @ [update_of sd i], calls := calls s @ [CallUpdate i d]\<rparr>)
         else (Inr (rows0 (map (\<lambda>x. stored sd i dt) (filter (\<lambda>x. id' x = i) (table s)))),
               s\<lparr>table := map (\<lambda>x. if id' x = i then stored sd i dt else x) (table s),
                 queries := queries s @ [update_of sd i], calls := calls s @ [CallUpdate i d]\<rparr>))"
  using assms by (simp add: update_def Let_def validate_sanitized[OF assms(1)] db_query_def called_def
      bind_columns_valid[OF assms] stored_def update_of_def split: sum.splits)

lemma findById_eq:
  "findById i s =
     (if \<not> int4 i
      then (Inl (StorageError (ascii ''out of range for type integer'')),
            s\<lparr>queries := queries s @ [SelectById i], calls := calls s @ [CallFindById i]\<rparr>)
      else (Inr (rows0 (filter (\<lambda>r. id' r = i) (table s))),
            s\<lparr>queries := queries s @ [SelectById i], calls := calls s @ [CallFindById i]\<rparr>))"
  by (simp add: findById_def db_query_def called_def)

lemma delete_eq:
  "delete i s =
     (if \<not> int4 i
      then (Inl (StorageError (ascii ''out of range for type integer'')),
            s\<lparr>queries := queries s @ [Delete i], calls := calls s @ [CallDelete i]\<rparr>)
      else (Inr (rows0 (filter (\<lambda>r. id' r = i) (table s))),
            s\<lparr>table := filter (\<lambda>r. id' r \<noteq> i) (table s),
              queries := queries s @ [Delete i], calls := calls s @ [CallDelete i]\<rparr>))"
  by (simp add: delete_def db_query_def called_def)

lemma findAll_eq:
  "findAll s = (Inr (order_by_data_id_desc (table s)),
                s\<lparr>queries := queries s @ [SelectAll], calls := calls s @ [CallFindAll]\<rparr>)"
  by (simp add: findAll_def db_query_def called_def)

lemmas eval_keys = k_nome_def k_profissional_def k_data_def k_tipo_def k_observacoes_def ascii_def

lemmas eval_pure = eval_keys field_def trim_def isWhiteSpace_def trim_or_empty_def blank_def
  string_or_falsy_def blank_text_def violated_rules_def tiposValidos_def
  sanitizeAtendimentoData_def validateAtendimentoData_def includes_tipo_def Let_def

lemmas eval_date = iso_date_def isDigit_def digitValue_def mathInt_def ascii_def Let_def

lemma stored_fields:
  assumes "sanitizeAtendimentoData d = Inr sd" "violated_rules sd = []"
  shows "id' (stored sd i dt) = i" "data (stored sd i dt) = dt"
    "field sd k_nome = JStr (nome (stored sd i dt))"
    "field sd k_profissional = JStr (profissional (stored sd i dt))"
    "field sd k_tipo = JStr (tipo (stored sd i dt))"
    "field sd k_observacoes = JStr (observacoes (stored sd i dt))"
  using sanitized_valid_strings[OF assms] by (auto simp: stored_def)

lemma create_table_cases:
  "(table (snd (create d s)) = table s \<and> (\<forall>r. fst (create d s) \<noteq> Inr r))
   \<or> (\<exists>r. fst (create d s) = Inr (Some r) \<and> table (snd (create d s)) = table s @ [r]
          \<and> id' r = seq s \<and> int4 (seq s) \<and> seq s \<notin> id' ` set (table s))"
proof (cases "sanitizeAtendimentoData d")
  case (Inl e)
  then show ?thesis by (simp add: create_sanitize_throws called_def)
next
  case (Inr sd)
  show ?thesis
  proof (cases "violated_rules sd = []")
    case False
    with Inr show ?thesis by (simp add: create_invalid called_def)
  next
    case True
    show ?thesis
      by (simp add: create_valid[OF Inr True] stored_fields[OF Inr True] split: sum.splits)
  qed
qed

lemma update_table_ids:
  "map id' (table (snd (update i d s))) = map id' (table s)"
proof (cases "sanitizeAtendimentoData d")
  case (Inl e)
  then show ?thesis by (simp add: update_sanitize_throws called_def)
next
  case (Inr sd)
  show ?thesis
  proof (cases "violated_rules sd = []")
    case False
    with Inr show ?thesis by (simp add: update_invalid called_def)
  next
    case True
    have "map id' (map (\<lambda>x. if id' x = i then stored sd i dt else x) xs) = map id' xs" for dt xs
      by (induction xs) (simp_all add: stored_fields(1)[OF Inr True])
    then show ?thesis
      by (simp add: update_valid[OF Inr True] split: sum.splits)
  qed
qed



lemma rows0_filter_absent: "i \<notin> id' ` set xs \<Longrightarrow> filter (\<lambda>r. id' r = i) xs = []"
  by (induction xs) auto



lemma rows0_Some_mem: "rows0 xs = Some r \<Longrightarrow> r \<in> set xs"
  by (cases xs) (simp_all add: rows0_def)

lemma order_by_sorted: "sorted_wrt date_desc_then_id_desc (order_by_data_id_desc rs)"
proof -
  have "sorted (map (\<lambda>r. (data r, id' r)) (sort_key (\<lambda>r. (data r, id' r)) rs))"
    by (rule sorted_sort_key)
  then have "sorted_wrt (\<lambda>a b. (data a, id' a) \<le> (data b, id' b))
               (sort_key (\<lambda>r. (data r, id' r)) rs)"
    by (simp add: sorted_wrt_map)
  then have "sorted_wrt (\<lambda>a b. (data b, id' b) \<le> (data a, id' a)) (order_by_data_id_desc rs)"
    by (simp add: order_by_data_id_desc_def sorted_wrt_rev)
  moreover have "(\<lambda>a b. (data b, id' b) \<le> (data a, id' a)) = date_desc_then_id_desc"
    by (auto simp: fun_eq_iff date_desc_then_id_desc_def)
  ultimately show ?thesis by simp
qed

lemma order_by_mset: "mset (order_by_data_id_desc rs) = mset rs"
  by (simp add: order_by_data_id_desc_def)

lemma sorted_wrt_precedes:
  assumes "sorted_wrt P rs" "a \<in> set rs" "b \<in> set rs" "\<not> P b a" "a \<noteq> b"
  shows "\<exists>xs ys zs. rs = xs @ a # ys @ b # zs"
proof -
  from assms(2) obtain xs rest where rs: "rs = xs @ a # rest"
    by (auto dest: split_list)
  from assms(1) rs have "\<forall>x \<in> set xs. P x a" by (simp add: sorted_wrt_append)
  with assms(4) have "b \<notin> set xs" by auto
  with assms(3,5) rs have "b \<in> set rest" by auto
  then obtain ys zs where "rest = ys @ b # zs" by (auto dest: split_list)
  with rs show ?thesis by blast
qed




lemma sanitize_cong:
  assumes "\<forall>k \<in> {k_nome, k_profissional, k_data, k_tipo, k_observacoes}. field d' k = field d k"
  shows "sanitizeAtendimentoData d' = sanitizeAtendimentoData d"
proof -
  from assms have eqs: "field d' k_nome = field d k_nome"
    "field d' k_profissional = field d k_profissional" "field d' k_data = field d k_data"
    "field d' k_tipo = field d k_tipo" "field d' k_observacoes = field d k_observacoes"
    by simp_all
  show ?thesis unfolding sanitizeAtendimentoData_def eqs ..
qed

lemma create_depends_on_sanitized:
  assumes "sanitizeAtendimentoData d' = sanitizeAtendimentoData d"
  shows "fst (create d' s) = fst (create d s)"
    and "table (snd (create d' s)) = table (snd (create d s))"
proof -
  have "fst (create d' s) = fst (create d s)
        \<and> table (snd (create d' s)) = table (snd (create d s))"
  proof (cases "sanitizeAtendimentoData d")
    case (Inl e)
    with assms show ?thesis by (simp add: create_sanitize_throws called_def)
  next
    case (Inr sd)
    with assms have Inr': "sanitizeAtendimentoData d' = Inr sd" by simp
    show ?thesis
    proof (cases "violated_rules sd = []")
      case False
      with Inr Inr' show ?thesis by (simp add: create_invalid called_def)
    next
      case True
      show ?thesis
        by (simp add: create_valid[OF Inr True] create_valid[OF Inr' True] split: sum.splits)
    qed
  qed
  then show "fst (create d' s) = fst (create d s)"
    and "table (snd (create d' s)) = table (snd (create d s))" by simp_all
qed

lemma update_depends_on_sanitized:
  assumes "sanitizeAtendimentoData d' = sanitizeAtendimentoData d"
  shows "fst (update i d' s) = fst (update i d s)"
    and "table (snd (update i d' s)) = table (snd (update i d s))"
proof -
  have "fst (update i d' s) = fst (update i d s)
        \<and> table (snd (update i d' s)) = table (snd (update i d s))"
  proof (cases "sanitizeAtendimentoData d")
    case (Inl e)
    with assms show ?thesis by (simp add: update_sanitize_throws called_def)
  next
    case (Inr sd)
    with assms have Inr': "sanitizeAtendimentoData d' = Inr sd" by simp
    show ?thesis
    proof (cases "violated_rules sd = []")
      case False
      with Inr Inr' show ?thesis by (simp add: update_invalid called_def)
    next
      case True
      show ?thesis
        by (simp add: update_valid[OF Inr True] update_valid[OF Inr' True] split: sum.splits)
    qed
  qed
  then show "fst (update i d' s) = fst (update i d s)"
    and "table (snd (update i d' s)) = table (snd (update i d s))" by simp_all
qed

lemma update_result_id: "fst (update i d s) = Inr (Some r) \<Longrightarrow> id' r = i"
proof (cases "sanitizeAtendimentoData d")
  case (Inl e)
  assume "fst (update i d s) = Inr (Some r)"
  with Inl show ?thesis by (simp add: update_sanitize_throws)
next
  case (Inr sd)
  assume a: "fst (update i d s) = Inr (Some r)"
  show ?thesis
  proof (cases "violated_rules sd = []")
    case False
    with Inr a show ?thesis by (simp add: update_invalid)
  next
    case True
    have c: "rows0 (map (\<lambda>x. r') xs) = Some r \<Longrightarrow> r = r'"
      for r' and xs :: "date atendimento list"
      by (cases xs) (simp_all add: rows0_def)
    from a obtain dt where "r = stored sd i dt"
      by (auto simp: update_valid[OF Inr True] split: sum.splits if_splits dest: c)
    then show ?thesis by (simp add: stored_fields(1)[OF Inr True])
  qed
qed

lemmas eval_model = create_def update_def delete_def findById_def findAll_def called_def
  db_query_def bind_columns_def text_in_def int4_def rows0_def empty_store_def
  order_by_data_id_desc_def validation_failed_def body_def psicologico_def row_ana_def
  one_row_store_def insert_of_def update_of_def

lemmas eval_msgs = msg_nome_def msg_profissional_def msg_data_def msg_tipo_def


lemmas eval_all = eval_model eval_pure eval_date eval_msgs

lemma sanitize_body:
  "sanitizeAtendimentoData (body dt tp) =
     Inr [(k_nome, JStr (ascii ''Ana'')), (k_profissional, JStr (ascii ''Dr. X'')),
          (k_data, JStr dt), (k_tipo, JStr tp), (k_observacoes, JStr [])]"
  by (simp add: body_def eval_pure)

lemma create_on_empty:
  "create (body (ascii ''2024-03-01'') psicologico) empty_store =
     (Inr (Some (row_ana 1 (2024, 3, 1))),
      \<lparr>table = [row_ana 1 (2024, 3, 1)], seq = 2, date_in = iso_date,
       queries = [insert_of [(k_nome, JStr (ascii ''Ana'')),
                             (k_profissional, JStr (ascii ''Dr. X'')),
                             (k_data, JStr (ascii ''2024-03-01'')), (k_tipo, JStr psicologico),
                             (k_observacoes, JStr [])]],
       calls = [CallCreate (body (ascii ''2024-03-01'') psicologico)]\<rparr>)"
  by (simp add: eval_all)

lemma two_rows_table:
  "table two_rows_store = [row_ana 1 (2024, 1, 1), row_ana 2 (2024, 6, 1)]"
  by (simp add: two_rows_store_def eval_all)

section \<open>The claims\<close>

text \<open>
  C1, amended. For every input object whose \<open>nome\<close> and \<open>profissional\<close> are each a
  string or falsy, \<open>validateAtendimentoData\<close> returns the messages of exactly the
  violated rules, once each and in the order of the rules (\<open>nome\<close> falsy or blank after
  trim, \<open>profissional\<close> likewise, \<open>data\<close> falsy, \<open>tipo\<close> not one of the three values),
  and \<open>isValid\<close> holds exactly when no rule is violated.
\<close>

theorem validate_reports_violated_rules:
  assumes "string_or_falsy (field d k_nome)" "string_or_falsy (field d k_profissional)"
  shows "validateAtendimentoData d =
           Inr \<lparr>isValid = (violated_rules d = []), errors = violated_rules d\<rparr>
         \<and> distinct (violated_rules d)"
  using validate_value[OF assms] violated_distinct by simp

theorem validate_reports_violated_rules_witness:
  "string_or_falsy (field [(k_nome, JStr (ascii ''  '')), (k_profissional, JStr (ascii ''Dr. X'')),
                           (k_tipo, JStr (ascii ''Outro''))] k_nome)
   \<and> string_or_falsy (field [(k_nome, JStr (ascii ''  '')), (k_profissional, JStr (ascii ''Dr. X'')),
                           (k_tipo, JStr (ascii ''Outro''))] k_profissional)
   \<and> validateAtendimentoData
        [(k_nome, JStr (ascii ''  '')), (k_profissional, JStr (ascii ''Dr. X'')),
         (k_tipo, JStr (ascii ''Outro''))]
      = Inr \<lparr>isValid = False, errors = [msg_nome, msg_data, msg_tipo]\<rparr>
   \<and> validateAtendimentoData
        [(k_nome, JStr (ascii ''Ana'')), (k_profissional, JStr (ascii ''Dr. X'')),
         (k_data, JStr (ascii ''2024-03-01'')),
         (k_tipo, JStr (ascii ''Psicol'' @ [0xF3] @ ascii ''gico''))]
      = Inr \<lparr>isValid = True, errors = []\<rparr>"
  using validate_reports_violated_rules
          [of "[(k_nome, JStr (ascii ''  '')), (k_profissional, JStr (ascii ''Dr. X'')),
                (k_tipo, JStr (ascii ''Outro''))]"]
        validate_reports_violated_rules
          [of "[(k_nome, JStr (ascii ''Ana'')), (k_profissional, JStr (ascii ''Dr. X'')),
                (k_data, JStr (ascii ''2024-03-01'')),
                (k_tipo, JStr (ascii ''Psicol'' @ [0xF3] @ ascii ''gico''))]"]
  by (simp add: eval_keys field_def trim_def isWhiteSpace_def
      string_or_falsy_def blank_text_def violated_rules_def tiposValidos_def)

text \<open>
  The claim as written fails: with \<open>nome\<close> the number 5 and a \<open>tipo\<close> outside the set,
  the call \<open>nome.trim()\<close> throws and no validation result is returned.
\<close>

theorem validate_throws_counterexample:
  "validateAtendimentoData
     [(k_nome, JNum 5), (k_profissional, JStr (ascii ''Dr. X'')),
      (k_data, JStr (ascii ''2024-03-01'')), (k_tipo, JStr (ascii ''Outro''))]
   = Inl (TypeError (ascii ''nome.trim is not a function''))"
  by (simp add: eval_pure)




text \<open>
  C3. For every state of the table, \<open>findAll\<close> returns exactly the rows of the table,
  ordered by date descending and, among rows of equal date, by id descending; it does
  not change the table; and a row with a later date stands before every row with an
  earlier date. The run of the claim (records dated 2024-01-01 and 2024-06-01 inserted
  into the empty table) is the witness.
\<close>

theorem findAll_sorted:
  "\<exists>rs. fst (findAll s) = Inr rs
      \<and> mset rs = mset (table s)
      \<and> sorted_wrt date_desc_then_id_desc rs
      \<and> table (snd (findAll s)) = table s
      \<and> (\<forall>a \<in> set (table s). \<forall>b \<in> set (table s).
            data b < data a \<longrightarrow> (\<exists>xs ys zs. rs = xs @ a # ys @ b # zs))"
proof (rule exI[of _ "order_by_data_id_desc (table s)"], intro conjI ballI impI)
  show "fst (findAll s) = Inr (order_by_data_id_desc (table s))"
    and "table (snd (findAll s)) = table s"
    by (simp_all add: findAll_eq)
  show "mset (order_by_data_id_desc (table s)) = mset (table s)" by (rule order_by_mset)
  show "sorted_wrt date_desc_then_id_desc (order_by_data_id_desc (table s))"
    by (rule order_by_sorted)
next
  fix a b assume a: "a \<in> set (table s)" and b: "b \<in> set (table s)" and lt: "data b < data a"
  have mem: "set (order_by_data_id_desc (table s)) = set (table s)"
    using order_by_mset[of "table s"] by (metis set_mset_mset)
  have "\<not> date_desc_then_id_desc b a" using lt by (auto simp: date_desc_then_id_desc_def)
  moreover have "a \<noteq> b" using lt by auto
  ultimately show "\<exists>xs ys zs. order_by_data_id_desc (table s) = xs @ a # ys @ b # zs"
    using sorted_wrt_precedes[OF order_by_sorted, of a "table s" b] a b mem by simp
qed

theorem findAll_sorted_witness:
  "table two_rows_store = [row_ana 1 (2024, 1, 1), row_ana 2 (2024, 6, 1)]
   \<and> fst (findAll two_rows_store) = Inr [row_ana 2 (2024, 6, 1), row_ana 1 (2024, 1, 1)]"
proof -
  let ?a = "row_ana 2 (2024, 6, 1) :: date atendimento"
  let ?b = "row_ana 1 (2024, 1, 1) :: date atendimento"
  have t: "table two_rows_store = [?b, ?a]" by (rule two_rows_table)
  have lt: "data ?b < data ?a" by (simp add: row_ana_def)
  from findAll_sorted [of two_rows_store] obtain rs where
    rs: "fst (findAll two_rows_store) = Inr rs" and
    m: "mset rs = mset (table two_rows_store)" and
    o: "\<forall>a \<in> set (table two_rows_store). \<forall>b \<in> set (table two_rows_store).
          data b < data a \<longrightarrow> (\<exists>xs ys zs. rs = xs @ a # ys @ b # zs)"
    by blast
  have ma: "?a \<in> set (table two_rows_store)" and mb: "?b \<in> set (table two_rows_store)"
    unfolding t by simp_all
  from o ma mb lt obtain xs ys zs where e: "rs = xs @ ?a # ys @ ?b # zs" by blast
  from m have "size (mset rs) = size (mset (table two_rows_store))" by simp
  then have "length rs = 2" unfolding t by simp
  then have "xs = [] \<and> ys = [] \<and> zs = []" unfolding e by simp
  with e have "rs = [?a, ?b]" by simp
  with rs t show ?thesis by simp
qed




text \<open>
  C5, amended. \<open>validateAtendimentoData\<close> returns normally exactly when \<open>nome\<close> and
  \<open>profissional\<close> are each a string or falsy, \<open>sanitizeAtendimentoData\<close> exactly when
  \<open>nome\<close>, \<open>profissional\<close> and \<open>observacoes\<close> are; on every other input object they
  throw a \<open>TypeError\<close>. On the result of \<open>sanitizeAtendimentoData\<close> the validation
  always returns.
\<close>

theorem validate_sanitize_return_iff:
  "((\<exists>v. validateAtendimentoData d = Inr v) \<longleftrightarrow>
      string_or_falsy (field d k_nome) \<and> string_or_falsy (field d k_profissional))
   \<and> ((\<exists>s. sanitizeAtendimentoData d = Inr s) \<longleftrightarrow>
      string_or_falsy (field d k_nome) \<and> string_or_falsy (field d k_profissional)
      \<and> string_or_falsy (field d k_observacoes))
   \<and> (\<forall>s. sanitizeAtendimentoData d = Inr s \<longrightarrow> (\<exists>v. validateAtendimentoData s = Inr v))"
  using validate_returns[of d] sanitize_returns[of d] validate_sanitized[of d] by simp

theorem validate_sanitize_return_iff_witness:
  "(\<exists>v. validateAtendimentoData [(k_nome, JStr (ascii '' Ana '')), (k_observacoes, JNull)] = Inr v)
   \<and> (\<exists>s. sanitizeAtendimentoData [(k_nome, JStr (ascii '' Ana '')), (k_observacoes, JNull)] = Inr s)"
  using validate_sanitize_return_iff [of "[(k_nome, JStr (ascii '' Ana '')), (k_observacoes, JNull)]"]
  by (simp add: eval_keys field_def string_or_falsy_def)

text \<open>
  The claim as written fails: a body whose \<open>nome\<close> is \<open>true\<close> makes both functions throw.
\<close>

theorem sanitize_validate_throw_counterexample:
  "sanitizeAtendimentoData [(k_nome, JBool True)]
     = Inl (TypeError (ascii ''data.nome.trim is not a function''))
   \<and> validateAtendimentoData [(k_nome, JBool True)]
     = Inl (TypeError (ascii ''nome.trim is not a function''))"
  by (simp add: eval_pure)

text \<open>
  C6. Whenever \<open>create\<close> returns, it returns a row, and \<open>findById\<close> at the id of that row,
  in the state \<open>create\<close> left, returns the same row: equal on id, nome, profissional,
  data, tipo and observacoes. In the HTTP responses both the created and the fetched
  record are that row with its date in display form.
\<close>

theorem create_then_findById:
  assumes "create d s = (Inr created, s')"
  shows "\<exists>r. created = Some r
           \<and> fst (findById (id' r) s') = Inr (Some r)
           \<and> table (snd (findById (id' r) s')) = table s'
           \<and> fst (createAtendimento display d s)
               = formatResponse 201 True (POne (formatAtendimentoResponse display r))
                   (ascii ''Atendimento created successfully'') []
           \<and> (\<forall>p. checked_id p = Some (id' r) \<longrightarrow>
                 fst (getAtendimentoById display p s')
                   = formatResponse 200 True (POne (formatAtendimentoResponse display r))
                       (ascii ''Atendimento retrieved successfully'') [])"
proof -
  from create_table_cases[of d s] assms obtain r where
    r: "created = Some r" "table s' = table s @ [r]" "id' r = seq s" "int4 (seq s)"
       "seq s \<notin> id' ` set (table s)"
    by auto
  have f: "filter (\<lambda>x. id' x = seq s) (table s') = [r]"
    using r by (simp add: rows0_filter_absent)
  have fb: "findById (id' r) s' =
          (Inr (Some r), s'\<lparr>queries := queries s' @ [SelectById (id' r)],
                            calls := calls s' @ [CallFindById (id' r)]\<rparr>)"
    using r(4) unfolding r(3) by (simp add: findById_eq f rows0_def)
  show ?thesis
    using assms r(1)
    by (intro exI[of _ r]) (simp add: fb createAtendimento_def getAtendimentoById_def format_or_null_def)
qed

theorem create_then_findById_witness:
  "fst (create (body (ascii ''2024-03-01'') psicologico) empty_store)
     = Inr (Some (row_ana 1 (2024, 3, 1)))
   \<and> fst (findById 1 (snd (create (body (ascii ''2024-03-01'') psicologico) empty_store)))
     = Inr (Some (row_ana 1 (2024, 3, 1)))
   \<and> checked_id (Some (ascii ''1'')) = Some 1
   \<and> fst (getAtendimentoById pt_BR (Some (ascii ''1''))
            (snd (create (body (ascii ''2024-03-01'') psicologico) empty_store)))
     = formatResponse 200 True (POne (row_ana 1 (ascii ''01/03/2024'')))
         (ascii ''Atendimento retrieved successfully'') []
   \<and> r_data (fst (createAtendimento pt_BR (body (ascii ''2024-03-01'') psicologico) empty_store))
     = POne (row_ana 1 (ascii ''01/03/2024''))"
proof -
  let ?D = "body (ascii ''2024-03-01'') psicologico"
  let ?R = "row_ana 1 (2024, 3, 1) :: date atendimento"
  let ?S = "snd (create ?D empty_store)"
  have id1: "checked_id (Some (ascii ''1'')) = Some 1"
    by (simp add: checked_id_def parseInt_def eval_date isWhiteSpace_def)
  have idr: "id' ?R = 1" by (simp add: row_ana_def)
  have fmt: "formatAtendimentoResponse pt_BR ?R = row_ana 1 (ascii ''01/03/2024'')"
    by (simp add: formatAtendimentoResponse_def row_ana_def pt_BR_def two_digits_def ascii_def)
  have c: "create ?D empty_store = (Inr (Some ?R), ?S)"
    by (simp add: create_on_empty)
  from create_then_findById [OF c, of pt_BR] have
    A: "fst (findById (id' ?R) ?S) = Inr (Some ?R)" and
    B: "fst (createAtendimento pt_BR ?D empty_store)
          = formatResponse 201 True (POne (formatAtendimentoResponse pt_BR ?R))
              (ascii ''Atendimento created successfully'') []" and
    C: "\<forall>p. checked_id p = Some (id' ?R) \<longrightarrow>
          fst (getAtendimentoById pt_BR p ?S)
            = formatResponse 200 True (POne (formatAtendimentoResponse pt_BR ?R))
                (ascii ''Atendimento retrieved successfully'') []"
    by auto
  have f1: "fst (create ?D empty_store) = Inr (Some ?R)" by (simp add: create_on_empty)
  have f2: "fst (findById 1 ?S) = Inr (Some ?R)" using A unfolding idr .
  have f4: "fst (getAtendimentoById pt_BR (Some (ascii ''1'')) ?S)
              = formatResponse 200 True (POne (row_ana 1 (ascii ''01/03/2024'')))
                  (ascii ''Atendimento retrieved successfully'') []"
    using C id1 unfolding idr fmt by blast
  have f5: "r_data (fst (createAtendimento pt_BR ?D empty_store))
              = POne (row_ana 1 (ascii ''01/03/2024''))"
    unfolding B fmt by (simp add: formatResponse_def)
  from f1 f2 id1 f4 f5 show ?thesis by blast
qed

text \<open>
  C7. \<open>sanitizeAtendimentoData\<close> is idempotent: applying it to its own result gives that
  result again (and where the first application throws, so does the composition). One
  application trims \<open>nome\<close>, \<open>profissional\<close> and \<open>observacoes\<close> when they are strings,
  makes them the empty string when they are falsy, and passes \<open>data\<close> and \<open>tipo\<close> through
  unchanged.
\<close>

theorem sanitize_idempotent:
  "(case sanitizeAtendimentoData x of Inl e \<Rightarrow> Inl e | Inr s \<Rightarrow> sanitizeAtendimentoData s)
     = sanitizeAtendimentoData x
   \<and> (\<forall>s. sanitizeAtendimentoData x = Inr s \<longrightarrow>
          field s k_data = field x k_data \<and> field s k_tipo = field x k_tipo \<and>
          (\<forall>k \<in> {k_nome, k_profissional, k_observacoes}.
             (\<forall>t. field x k = JStr t \<longrightarrow> field s k = JStr (trim t)) \<and>
             (\<not> truthy (field x k) \<longrightarrow> field s k = JStr [])))"
proof (intro conjI allI impI)
  show "(case sanitizeAtendimentoData x of Inl e \<Rightarrow> Inl e | Inr s \<Rightarrow> sanitizeAtendimentoData s)
     = sanitizeAtendimentoData x"
    by (cases "sanitizeAtendimentoData x") (simp_all add: sanitize_fixed)
next
  fix s assume a: "sanitizeAtendimentoData x = Inr s"
  then obtain n p ob where
    n: "trim_or_empty (ascii ''data.nome'') (field x k_nome) = Inr n" and
    p: "trim_or_empty (ascii ''data.profissional'') (field x k_profissional) = Inr p" and
    ob: "trim_or_empty (ascii ''data.observacoes'') (field x k_observacoes) = Inr ob" and
    s: "s = [(k_nome, JStr n), (k_profissional, JStr p), (k_data, field x k_data),
          (k_tipo, field x k_tipo), (k_observacoes, JStr ob)]"
    by (rule sanitize_Inr)
  show "field s k_data = field x k_data" by (simp add: s field_literal)
  show "field s k_tipo = field x k_tipo" by (simp add: s field_literal)
  show "\<forall>k \<in> {k_nome, k_profissional, k_observacoes}.
             (\<forall>t. field x k = JStr t \<longrightarrow> field s k = JStr (trim t)) \<and>
             (\<not> truthy (field x k) \<longrightarrow> field s k = JStr [])"
    using n p ob by (auto simp: s field_literal trim_or_empty_cases)
qed

theorem sanitize_idempotent_witness:
  "sanitizeAtendimentoData
     [(k_nome, JStr (ascii '' Ana '')), (k_data, JStr (ascii ''2024-03-01'')), (ascii ''id'', JNum 7)]
   = Inr [(k_nome, JStr (ascii ''Ana'')), (k_profissional, JStr []),
          (k_data, JStr (ascii ''2024-03-01'')), (k_tipo, JUndefined), (k_observacoes, JStr [])]
   \<and> sanitizeAtendimentoData
        [(k_nome, JStr (ascii ''Ana'')), (k_profissional, JStr []),
          (k_data, JStr (ascii ''2024-03-01'')), (k_tipo, JUndefined), (k_observacoes, JStr [])]
   = Inr [(k_nome, JStr (ascii ''Ana'')), (k_profissional, JStr []),
          (k_data, JStr (ascii ''2024-03-01'')), (k_tipo, JUndefined), (k_observacoes, JStr [])]"
  using sanitize_idempotent
     [of "[(k_nome, JStr (ascii '' Ana '')), (k_data, JStr (ascii ''2024-03-01'')), (ascii ''id'', JNum 7)]"]
  by (simp add: eval_pure)




text \<open>
  C9, amended. Whenever \<open>sanitizeAtendimentoData\<close> returns, its result has exactly the
  keys nome, profissional, data, tipo, observacoes. For every request body, what
  \<open>create\<close> and \<open>update\<close> return and what they do to the table depends only on those five
  properties of the body; \<open>create\<close> leaves the stored rows as they are and at most
  appends one row whose id is the next value of the sequence; \<open>update\<close> leaves the ids
  of all rows as they are and returns only a row with the id of the path.
\<close>

theorem body_cannot_set_id:
  "(\<forall>sd. sanitizeAtendimentoData d = Inr sd \<longrightarrow>
        keys sd = [k_nome, k_profissional, k_data, k_tipo, k_observacoes])
   \<and> (\<forall>d'. (\<forall>k \<in> {k_nome, k_profissional, k_data, k_tipo, k_observacoes}.
                field d' k = field d k) \<longrightarrow>
          sanitizeAtendimentoData d' = sanitizeAtendimentoData d
        \<and> fst (create d' s) = fst (create d s)
        \<and> table (snd (create d' s)) = table (snd (create d s))
        \<and> fst (update i d' s) = fst (update i d s)
        \<and> table (snd (update i d' s)) = table (snd (update i d s)))
   \<and> (table (snd (create d s)) = table s
        \<or> (\<exists>r. fst (create d s) = Inr (Some r) \<and> id' r = seq s
                \<and> table (snd (create d s)) = table s @ [r]))
   \<and> map id' (table (snd (update i d s))) = map id' (table s)
   \<and> (\<forall>r. fst (update i d s) = Inr (Some r) \<longrightarrow> id' r = i)"
proof (intro conjI allI impI)
  fix sd assume "sanitizeAtendimentoData d = Inr sd"
  then show "keys sd = [k_nome, k_profissional, k_data, k_tipo, k_observacoes]"
    using sanitized_fields by blast
next
  fix d'
  assume "\<forall>k \<in> {k_nome, k_profissional, k_data, k_tipo, k_observacoes}. field d' k = field d k"
  then have c: "sanitizeAtendimentoData d' = sanitizeAtendimentoData d" by (rule sanitize_cong)
  then show "sanitizeAtendimentoData d' = sanitizeAtendimentoData d" .
  from c show "fst (create d' s) = fst (create d s)"
    and "table (snd (create d' s)) = table (snd (create d s))"
    by (rule create_depends_on_sanitized)+
  from c show "fst (update i d' s) = fst (update i d s)"
    and "table (snd (update i d' s)) = table (snd (update i d s))"
    by (rule update_depends_on_sanitized)+
next
  show "table (snd (create d s)) = table s
        \<or> (\<exists>r. fst (create d s) = Inr (Some r) \<and> id' r = seq s
                \<and> table (snd (create d s)) = table s @ [r])"
    using create_table_cases[of d s] by blast
next
  show "map id' (table (snd (update i d s))) = map id' (table s)" by (rule update_table_ids)
next
  fix r assume "fst (update i d s) = Inr (Some r)"
  then show "id' r = i" by (rule update_result_id)
qed

theorem body_cannot_set_id_witness:
  "field ((ascii ''id'', JNum 99) # body (ascii ''2024-03-01'') psicologico) k_nome
     = field (body (ascii ''2024-03-01'') psicologico) k_nome
   \<and> field ((ascii ''id'', JNum 99) # body (ascii ''2024-03-01'') psicologico) k_profissional
     = field (body (ascii ''2024-03-01'') psicologico) k_profissional
   \<and> field ((ascii ''id'', JNum 99) # body (ascii ''2024-03-01'') psicologico) k_data
     = field (body (ascii ''2024-03-01'') psicologico) k_data
   \<and> field ((ascii ''id'', JNum 99) # body (ascii ''2024-03-01'') psicologico) k_tipo
     = field (body (ascii ''2024-03-01'') psicologico) k_tipo
   \<and> field ((ascii ''id'', JNum 99) # body (ascii ''2024-03-01'') psicologico) k_observacoes
     = field (body (ascii ''2024-03-01'') psicologico) k_observacoes
   \<and> fst (create ((ascii ''id'', JNum 99) # body (ascii ''2024-03-01'') psicologico) empty_store)
     = Inr (Some (row_ana 1 (2024, 3, 1)))
   \<and> keys [(k_nome, JStr (ascii ''Ana'')), (k_profissional, JStr (ascii ''Dr. X'')),
            (k_data, JStr (ascii ''2024-03-01'')), (k_tipo, JStr psicologico),
            (k_observacoes, JStr [])]
     = [k_nome, k_profissional, k_data, k_tipo, k_observacoes]"
proof -
  let ?D = "body (ascii ''2024-03-01'') psicologico"
  let ?D' = "(ascii ''id'', JNum 99) # ?D"
  have f: "field ?D' k_nome = field ?D k_nome" "field ?D' k_profissional = field ?D k_profissional"
    "field ?D' k_data = field ?D k_data" "field ?D' k_tipo = field ?D k_tipo"
    "field ?D' k_observacoes = field ?D k_observacoes"
    by (simp_all add: field_def eval_keys)
  then have h: "\<forall>k \<in> {k_nome, k_profissional, k_data, k_tipo, k_observacoes}.
                  field ?D' k = field ?D k"
    by simp
  from body_cannot_set_id [of ?D empty_store 1] h sanitize_body [of "ascii ''2024-03-01''" psicologico]
  have "fst (create ?D' empty_store) = fst (create ?D empty_store)"
    and "keys [(k_nome, JStr (ascii ''Ana'')), (k_profissional, JStr (ascii ''Dr. X'')),
            (k_data, JStr (ascii ''2024-03-01'')), (k_tipo, JStr psicologico),
            (k_observacoes, JStr [])]
         = [k_nome, k_profissional, k_data, k_tipo, k_observacoes]"
    by blast+
  with f show ?thesis by (simp add: create_on_empty)
qed

text \<open>
  The claim as written fails: for a body whose \<open>nome\<close> is a number
  \<open>sanitizeAtendimentoData\<close> throws and produces no object.
\<close>

theorem sanitize_produces_nothing_counterexample:
  "sanitizeAtendimentoData [(ascii ''id'', JNum 99), (k_nome, JNum 5)]
     = Inl (TypeError (ascii ''data.nome.trim is not a function''))"
  by (simp add: eval_pure)

text \<open>
  C10. Every successful DELETE response carries as data only the id, which is the id of
  the row that the model removed from the table and returned in full.
\<close>

theorem delete_response_holds_only_id:
  "success (fst (deleteAtendimento p s)) \<longrightarrow>
     (\<exists>i r. checked_id p = Some i \<and> fst (delete i s) = Inr (Some r)
           \<and> r \<in> set (table s) \<and> id' r = i
           \<and> fst (deleteAtendimento p s)
               = formatResponse 200 True (PId i) (ascii ''Atendimento deleted successfully'') [])"
proof
  assume a: "success (fst (deleteAtendimento p s))"
  then obtain i where i: "checked_id p = Some i"
    by (cases "checked_id p")
       (simp_all add: deleteAtendimento_def invalid_id_response_def formatResponse_def)
  from a i have ok: "int4 i"
    by (auto simp: deleteAtendimento_def delete_eq formatResponse_def split: if_splits)
  from a i ok obtain r where r: "rows0 (filter (\<lambda>r. id' r = i) (table s)) = Some r"
    by (cases "rows0 (filter (\<lambda>r. id' r = i) (table s))")
       (simp_all add: deleteAtendimento_def delete_eq not_found_response_def formatResponse_def)
  then have "r \<in> set (filter (\<lambda>r. id' r = i) (table s))"
    by (rule rows0_Some_mem)
  then have "r \<in> set (table s)" "id' r = i" by auto
  with i ok r show "\<exists>i r. checked_id p = Some i \<and> fst (delete i s) = Inr (Some r)
           \<and> r \<in> set (table s) \<and> id' r = i
           \<and> fst (deleteAtendimento p s)
               = formatResponse 200 True (PId i) (ascii ''Atendimento deleted successfully'') []"
    by (intro exI[of _ i] exI[of _ r]) (simp add: deleteAtendimento_def delete_eq)
qed

theorem delete_response_holds_only_id_witness:
  "success (fst (deleteAtendimento (Some (ascii ''1'')) one_row_store))
   \<and> fst (delete 1 one_row_store) = Inr (Some (row_ana 1 (2024, 3, 1)))
   \<and> fst (deleteAtendimento (Some (ascii ''1'')) one_row_store)
     = formatResponse 200 True (PId 1) (ascii ''Atendimento deleted successfully'') []"
proof -
  have y: "checked_id (Some (ascii ''1'')) = Some 1"
    by (simp add: checked_id_def parseInt_def eval_date isWhiteSpace_def)
  have s: "success (fst (deleteAtendimento (Some (ascii ''1'')) one_row_store))"
    by (simp add: deleteAtendimento_def y formatResponse_def delete_eq rows0_def
        one_row_store_def row_ana_def int4_def)
  have d: "fst (delete 1 one_row_store) = Inr (Some (row_ana 1 (2024, 3, 1)))"
    by (simp add: delete_eq rows0_def one_row_store_def row_ana_def int4_def)
  from delete_response_holds_only_id [of "Some (ascii ''1'')" one_row_store] s y
  have "fst (deleteAtendimento (Some (ascii ''1'')) one_row_store)
          = formatResponse 200 True (PId 1) (ascii ''Atendimento deleted successfully'') []"
    by auto
  with s d show ?thesis by blast
qed

end
